theory Spec2Isabelle
  imports Complex_Main "HOL-Library.Word" "HOL-Library.Sublist"
begin

section \<open>JavaScript values\<close>

text \<open>
  A JavaScript string is a sequence of 16-bit code units. Every string literal of
  \<^verbatim>\<open>apiClient.ts\<close> is ASCII; \<open>js\<close> embeds such a literal.
\<close>

type_synonym jsstring = "16 word list"

definition js :: "string \<Rightarrow> jsstring" where
  "js s = map of_char s"

text \<open>
  A number is a double: not-a-number, an infinity, or a finite value, which is a
  rational. The program only compares a number with zero, tests it for truthiness and
  prints it; negative zero behaves as zero in all three, so it is not told apart.
\<close>

datatype jsnum = NaN | PosInfinity | NegInfinity | Finite rat

text \<open>
  The values the client handles: what \<^verbatim>\<open>response.json()\<close> can produce (null,
  booleans, numbers, strings, arrays, objects with their properties in an association
  list whose first binding of a key is the one in force), \<^verbatim>\<open>undefined\<close> for
  what is absent, and instances of \<^verbatim>\<open>Error\<close> with their \<^verbatim>\<open>message\<close>
  (a string by the declaration of \<^verbatim>\<open>Error\<close>).
\<close>

datatype jsval =
    JUndefined
  | JNull
  | JBool bool
  | JNum jsnum
  | JStr jsstring
  | JArr "jsval list"
  | JObj "(jsstring \<times> jsval) list"
  | JError jsstring

text \<open>The conversion to a boolean behind \<^verbatim>\<open>!v\<close> and \<^verbatim>\<open>v || d\<close>.\<close>

fun truthy :: "jsval \<Rightarrow> bool" where
  "truthy JUndefined = False"
| "truthy JNull = False"
| "truthy (JBool b) = b"
| "truthy (JNum n) = (n \<noteq> NaN \<and> n \<noteq> Finite 0)"
| "truthy (JStr s) = (s \<noteq> [])"
| "truthy (JArr xs) = True"
| "truthy (JObj kvs) = True"
| "truthy (JError m) = True"

text \<open>What a read of a property or a call of a non-function throws.\<close>

datatype exn = TypeError

definition Object_get :: "(jsstring \<times> jsval) list \<Rightarrow> jsstring \<Rightarrow> jsval" where
  "Object_get kvs k = (case map_of kvs k of None \<Rightarrow> JUndefined | Some v \<Rightarrow> v)"

text \<open>
  The read \<^verbatim>\<open>v.k\<close>, for the property names \<^verbatim>\<open>processResponse\<close> reads
  (\<^verbatim>\<open>data\<close>, \<^verbatim>\<open>id\<close>, \<^verbatim>\<open>text\<close>, \<^verbatim>\<open>created_at\<close>, \<^verbatim>\<open>author_id\<close>,
  \<^verbatim>\<open>public_metrics\<close>, \<^verbatim>\<open>referenced_tweets\<close>): none of them is a property of a
  built-in prototype, so only an object's own properties answer. Reading a property of
  \<^verbatim>\<open>undefined\<close> or \<^verbatim>\<open>null\<close> throws.
\<close>

fun get_prop :: "jsval \<Rightarrow> jsstring \<Rightarrow> exn + jsval" where
  "get_prop JUndefined k = Inl TypeError"
| "get_prop JNull k = Inl TypeError"
| "get_prop (JObj kvs) k = Inr (Object_get kvs k)"
| "get_prop v k = Inr JUndefined"

definition bind_exn :: "'e + 'a \<Rightarrow> ('a \<Rightarrow> 'e + 'b) \<Rightarrow> 'e + 'b" where
  "bind_exn r f = (case r of Inl e \<Rightarrow> Inl e | Inr v \<Rightarrow> f v)"

text \<open>\<^verbatim>\<open>xs.map(f)\<close> on an array: the first call that throws ends the loop.\<close>

fun Array_map :: "(jsval \<Rightarrow> exn + jsval) \<Rightarrow> jsval list \<Rightarrow> exn + jsval list" where
  "Array_map f [] = Inr []"
| "Array_map f (x # xs) =
     bind_exn (f x) (\<lambda>y. bind_exn (Array_map f xs) (\<lambda>ys. Inr (y # ys)))"

text \<open>\<^verbatim>\<open>v || d\<close>\<close>

definition or_else :: "jsval \<Rightarrow> jsval \<Rightarrow> jsval" where
  "or_else v d = (if truthy v then v else d)"

section \<open>processResponse\<close>

text \<open>
  The arrow function of lines 98 to 105:
  \<^verbatim>\<open>(tweet) => ({ id: tweet.id, text: tweet.text, createdAt: tweet.created_at,
  authorId: tweet.author_id, metrics: tweet.public_metrics,
  referencedTweets: tweet.referenced_tweets || [] })\<close>
\<close>

definition simplify_tweet :: "jsval \<Rightarrow> exn + jsval" where
  "simplify_tweet tweet =
     bind_exn (get_prop tweet (js ''id'')) (\<lambda>id.
     bind_exn (get_prop tweet (js ''text'')) (\<lambda>text.
     bind_exn (get_prop tweet (js ''created_at'')) (\<lambda>created_at.
     bind_exn (get_prop tweet (js ''author_id'')) (\<lambda>author_id.
     bind_exn (get_prop tweet (js ''public_metrics'')) (\<lambda>public_metrics.
     bind_exn (get_prop tweet (js ''referenced_tweets'')) (\<lambda>referenced_tweets.
       Inr (JObj
         [(js ''id'', id),
          (js ''text'', text),
          (js ''createdAt'', created_at),
          (js ''authorId'', author_id),
          (js ''metrics'', public_metrics),
          (js ''referencedTweets'', or_else referenced_tweets (JArr []))])))))))"

text \<open>
  \<^verbatim>\<open>responseData.data.map(...)\<close>: only an array has a \<^verbatim>\<open>map\<close> method; on any
  other value that passed the guard \<^verbatim>\<open>data.map\<close> is not a function and the call
  throws.
\<close>

definition processResponse :: "jsval \<Rightarrow> exn + jsval" where
  "processResponse responseData =
     (if \<not> truthy responseData then Inr (JArr [])
      else bind_exn (get_prop responseData (js ''data'')) (\<lambda>data.
        if \<not> truthy data then Inr (JArr [])
        else (case data of
                JArr tweets \<Rightarrow> bind_exn (Array_map simplify_tweet tweets) (\<lambda>ys. Inr (JArr ys))
              | _ \<Rightarrow> Inl TypeError)))"

section \<open>Strings and numbers as the client uses them\<close>

text \<open>
  \<^verbatim>\<open>String.prototype.trim\<close> strips the code units that ECMAScript calls white space
  or line terminators from both ends.
\<close>

definition is_WhiteSpace :: "16 word \<Rightarrow> bool" where
  "is_WhiteSpace c =
     (c \<in> {0x0009, 0x000A, 0x000B, 0x000C, 0x000D, 0x0020, 0x00A0, 0x1680,
            0x2028, 0x2029, 0x202F, 0x205F, 0x3000, 0xFEFF}
      \<or> (0x2000 \<le> c \<and> c \<le> 0x200A))"

definition String_trim :: "jsstring \<Rightarrow> jsstring" where
  "String_trim s = rev (dropWhile is_WhiteSpace (rev (dropWhile is_WhiteSpace s)))"

text \<open>\<^verbatim>\<open>s.includes(t)\<close>: \<open>t\<close> occurs in \<open>s\<close> as a run of code units.\<close>

fun String_includes :: "jsstring \<Rightarrow> jsstring \<Rightarrow> bool" where
  "String_includes [] t = (t = [])"
| "String_includes (c # s) t = (prefix t (c # s) \<or> String_includes s t)"

text \<open>The comparisons \<^verbatim>\<open>a <= b\<close> and \<^verbatim>\<open>a < b\<close> of two numbers; both are false on NaN.\<close>

fun Number_le :: "jsnum \<Rightarrow> jsnum \<Rightarrow> bool" where
  "Number_le NaN b = False"
| "Number_le a NaN = False"
| "Number_le NegInfinity b = True"
| "Number_le a PosInfinity = True"
| "Number_le (Finite a) (Finite b) = (a \<le> b)"
| "Number_le PosInfinity b = False"
| "Number_le a NegInfinity = False"

fun Number_lt :: "jsnum \<Rightarrow> jsnum \<Rightarrow> bool" where
  "Number_lt NaN b = False"
| "Number_lt a NaN = False"
| "Number_lt (Finite a) (Finite b) = (a < b)"
| "Number_lt PosInfinity b = False"
| "Number_lt a NegInfinity = False"
| "Number_lt NegInfinity b = True"
| "Number_lt a PosInfinity = True"

text \<open>
  The decimal digits of a natural number. JavaScript prints an integer up to \<open>2 ^ 53\<close>
  as exactly these digits; this is what the template literal of line 57 prints for an
  HTTP status code, which fits 16 bits.
\<close>

fun decimal :: "nat \<Rightarrow> jsstring" where
  "decimal n =
     (if n < 10 then [of_nat (48 + n)]
      else decimal (n div 10) @ [of_nat (48 + n mod 10)])"

text \<open>
  What it means for a string to be the decimal numeral of a number, said without
  \<open>decimal\<close>: it is a non-empty run of the digits \<^verbatim>\<open>0\<close> to \<^verbatim>\<open>9\<close>, has no
  leading zero unless it is a single digit, and its value in base ten is the number.
\<close>

definition is_decimal_digit :: "16 word \<Rightarrow> bool" where
  "is_decimal_digit d = (0x30 \<le> d \<and> d \<le> 0x39)"

definition digits_value :: "jsstring \<Rightarrow> nat" where
  "digits_value ds = foldl (\<lambda>a d. 10 * a + (unat d - 48)) 0 ds"

definition decimal_numeral :: "jsstring \<Rightarrow> nat \<Rightarrow> bool" where
  "decimal_numeral ds n =
     (ds \<noteq> [] \<and> list_all is_decimal_digit ds \<and> (length ds = 1 \<or> hd ds \<noteq> 0x30)
      \<and> digits_value ds = n)"

section \<open>The client, its collaborators and its effects\<close>

record client =
  API_BASE_URL :: jsstring
  authorizationHeader :: jsstring

text \<open>The request handed to \<^verbatim>\<open>httpx.fetch\<close>: the URL and the headers.\<close>

record request =
  url :: jsstring
  headers :: "(jsstring \<times> jsstring) list"

text \<open>
  What the client reads of a response: \<^verbatim>\<open>ok\<close> (the transport's flag for a 2xx
  status), \<^verbatim>\<open>status\<close> (the numeric HTTP status, an unsigned 16-bit integer as in
  the \<^verbatim>\<open>Response\<close> of the Fetch standard), \<^verbatim>\<open>statusText\<close>, and the outcome of
  \<^verbatim>\<open>json()\<close>, which resolves to the parsed body or rejects with a thrown value.
\<close>

record response =
  ok :: bool
  status :: "16 word"
  statusText :: jsstring
  json :: "jsval + jsval"

text \<open>
  The platform the client runs on: \<^verbatim>\<open>Number.prototype.toString\<close> (the shortest
  decimal that reads back as the same double), the serialisation of a
  \<^verbatim>\<open>URLSearchParams\<close> inside a template literal, and the transport
  \<^verbatim>\<open>httpx.fetch\<close>, which rejects with a thrown value (\<open>Inl\<close>) or resolves to a
  response.
\<close>

record platform =
  Number_toString :: "jsnum \<Rightarrow> jsstring"
  URLSearchParams_toString :: "(jsstring \<times> jsstring) list \<Rightarrow> jsstring"
  httpx_fetch :: "request \<Rightarrow> jsval + response"

text \<open>
  The effects of a call: the argument lists of the calls of \<^verbatim>\<open>console.error\<close> and
  the requests handed to the transport, both in order.
\<close>

record world =
  console_error :: "jsval list list"
  dispatched :: "request list"

definition console_error_call :: "jsval list \<Rightarrow> world \<Rightarrow> world" where
  "console_error_call args w = w\<lparr>console_error := console_error w @ [args]\<rparr>"

section \<open>The constructor\<close>

text \<open>
  \<^verbatim>\<open>TWITTER_BEARER_TOKEN\<close> is imported from \<^verbatim>\<open>config/env\<close>, which is not among
  the sources: it is a parameter here, \<open>None\<close> when the configuration leaves it
  undefined. A thrown value is on the left.
\<close>

definition TwitterApiClient :: "jsstring option \<Rightarrow> jsval + client" where
  "TwitterApiClient TWITTER_BEARER_TOKEN =
     (case TWITTER_BEARER_TOKEN of
        None \<Rightarrow> Inl (JError (js ''TWITTER_BEARER_TOKEN is not configured''))
      | Some token \<Rightarrow>
          if token = [] then Inl (JError (js ''TWITTER_BEARER_TOKEN is not configured''))
          else Inr \<lparr>API_BASE_URL = js ''https://api.twitter.com/2'',
                    authorizationHeader = js ''Bearer '' @ token\<rparr>)"

section \<open>handleError\<close>

definition handleError :: "jsval \<Rightarrow> world \<Rightarrow> world" where
  "handleError error w =
     (let w1 = console_error_call [JStr (js ''Twitter API Error:''), error] w
      in case error of
           JError message \<Rightarrow>
             if String_includes message (js ''401'')
                \<or> String_includes message (js ''Unauthorized'')
             then console_error_call
                    [JStr (js ''Authentication failed. Please check your Twitter API credentials.'')] w1
             else if String_includes message (js ''429'')
             then console_error_call
                    [JStr (js ''Rate limit exceeded. Please try again later.'')] w1
             else w1
         | _ \<Rightarrow> w1)"

section \<open>fetchTweets\<close>

text \<open>Lines 39 to 54: the query parameters, the URL and the headers.\<close>

definition search_params :: "platform \<Rightarrow> jsstring \<Rightarrow> jsnum \<Rightarrow> (jsstring \<times> jsstring) list" where
  "search_params P query limit =
     [(js ''query'', String_trim query),
      (js ''max_results'', Number_toString P limit),
      (js ''tweet.fields'', js ''created_at,author_id,public_metrics,referenced_tweets'')]"

definition search_request :: "platform \<Rightarrow> client \<Rightarrow> jsstring \<Rightarrow> jsnum \<Rightarrow> request" where
  "search_request P c query limit =
     \<lparr>url = API_BASE_URL c @ js ''/tweets/search/recent?''
              @ URLSearchParams_toString P (search_params P query limit),
      headers = [(js ''Authorization'', authorizationHeader c),
                 (js ''Content-Type'', js ''application/json'')]\<rparr>"

text \<open>
  The body of the \<^verbatim>\<open>try\<close> block: the value returned or thrown (\<open>Inl\<close>), and the
  world at that point.
\<close>

definition fetchTweets_try ::
  "platform \<Rightarrow> client \<Rightarrow> jsstring \<Rightarrow> jsnum \<Rightarrow> world \<Rightarrow> (jsval + jsval) \<times> world" where
  "fetchTweets_try P c query limit w =
     (if query = [] \<or> length (String_trim query) = 0
      then (Inl (JError (js ''Query parameter is required'')), w)
      else if Number_le limit (Finite 0)
      then (Inl (JError (js ''Limit must be a positive integer'')), w)
      else
        let req = search_request P c query limit;
            w1 = w\<lparr>dispatched := dispatched w @ [req]\<rparr>
        in case httpx_fetch P req of
             Inl thrown \<Rightarrow> (Inl thrown, w1)
           | Inr response \<Rightarrow>
               if \<not> ok response
               then (Inl (JError (js ''Twitter API error: '' @ decimal (unat (status response))
                                   @ js '' '' @ statusText response)), w1)
               else (json response, w1))"

text \<open>The \<^verbatim>\<open>catch\<close> clause: \<^verbatim>\<open>this.handleError(error); throw error;\<close>\<close>

definition fetchTweets ::
  "platform \<Rightarrow> client \<Rightarrow> jsstring \<Rightarrow> jsnum \<Rightarrow> world \<Rightarrow> (jsval + jsval) \<times> world" where
  "fetchTweets P c query limit w =
     (case fetchTweets_try P c query limit w of
        (Inl error, w1) \<Rightarrow> (Inl error, handleError error w1)
      | (Inr body, w1) \<Rightarrow> (Inr body, w1))"

section \<open>The platform of the integration tests\<close>

text \<open>
  \<^verbatim>\<open>Number.prototype.toString\<close> where finding the digits takes no floating-point
  rounding: NaN, the infinities, the integers up to \<open>2 ^ 53\<close>, and the decimals of at
  most 15 significant digits that JavaScript prints without an exponent (a double that
  is such a decimal prints as its digits). \<open>scale10\<close> finds the least power of ten that
  makes the number an integer; on any other number the result is \<open>None\<close>.
\<close>

fun scale10 :: "nat \<Rightarrow> rat \<Rightarrow> nat \<Rightarrow> (nat \<times> nat) option" where
  "scale10 0 r e = None"
| "scale10 (Suc fuel) r e =
     (if of_int \<lfloor>r\<rfloor> = r then Some (nat \<lfloor>r\<rfloor>, e) else scale10 fuel (10 * r) (Suc e))"

definition print_positive :: "rat \<Rightarrow> jsstring option" where
  "print_positive r =
     (case scale10 22 r 0 of
        None \<Rightarrow> None
      | Some (m, e) \<Rightarrow>
          let ds = decimal m; k = length ds
          in if e = 0 then (if m \<le> 2 ^ 53 then Some ds else None)
             else if k \<le> 15 \<and> e < k + 6
             then Some (if e < k then take (k - e) ds @ js ''.'' @ drop (k - e) ds
                        else js ''0.'' @ replicate (e - k) 0x30 @ ds)
             else None)"

definition Number_print :: "jsnum \<Rightarrow> jsstring option" where
  "Number_print n =
     (case n of
        NaN \<Rightarrow> Some (js ''NaN'')
      | PosInfinity \<Rightarrow> Some (js ''Infinity'')
      | NegInfinity \<Rightarrow> Some (js ''-Infinity'')
      | Finite r \<Rightarrow>
          if r < 0 then map_option (\<lambda>s. js ''-'' @ s) (print_positive (- r))
          else print_positive r)"

text \<open>
  The serialisation of a \<^verbatim>\<open>URLSearchParams\<close> (the
  \<^verbatim>\<open>application/x-www-form-urlencoded\<close> serialiser of the URL standard): each name
  and value is read as scalar values (a lone surrogate becomes U+FFFD), encoded in
  UTF-8, and each byte is kept if it is an ASCII letter, a digit or one of
  \<^verbatim>\<open>*-._\<close>, written \<^verbatim>\<open>+\<close> if it is a space, and percent-encoded with upper-case
  hexadecimal digits otherwise; the pairs are joined by \<^verbatim>\<open>&\<close>.
\<close>

definition hex_digit :: "nat \<Rightarrow> 16 word" where
  "hex_digit d = (if d < 10 then of_nat (48 + d) else of_nat (55 + d))"

definition percent_encode_byte :: "nat \<Rightarrow> jsstring" where
  "percent_encode_byte b =
     (if b = 0x20 then js ''+''
      else if (0x30 \<le> b \<and> b \<le> 0x39) \<or> (0x41 \<le> b \<and> b \<le> 0x5A) \<or> (0x61 \<le> b \<and> b \<le> 0x7A)
              \<or> b \<in> {0x2A, 0x2D, 0x2E, 0x5F}
      then [of_nat b]
      else [0x25, hex_digit (b div 16), hex_digit (b mod 16)])"

definition utf8_bytes :: "nat \<Rightarrow> nat list" where
  "utf8_bytes cp =
     (if cp < 0x80 then [cp]
      else if cp < 0x800 then [0xC0 + cp div 64, 0x80 + cp mod 64]
      else if cp < 0x10000 then [0xE0 + cp div 4096, 0x80 + cp div 64 mod 64, 0x80 + cp mod 64]
      else [0xF0 + cp div 262144, 0x80 + cp div 4096 mod 64, 0x80 + cp div 64 mod 64,
            0x80 + cp mod 64])"

fun scalar_values :: "nat list \<Rightarrow> nat list" where
  "scalar_values [] = []"
| "scalar_values [u] = [if 0xD800 \<le> u \<and> u < 0xE000 then 0xFFFD else u]"
| "scalar_values (u # v # us) =
     (if 0xD800 \<le> u \<and> u < 0xDC00 \<and> 0xDC00 \<le> v \<and> v < 0xE000
      then (0x10000 + (u - 0xD800) * 1024 + (v - 0xDC00)) # scalar_values us
      else (if 0xD800 \<le> u \<and> u < 0xE000 then 0xFFFD else u) # scalar_values (v # us))"

definition urlencode :: "jsstring \<Rightarrow> jsstring" where
  "urlencode s =
     concat (map percent_encode_byte (concat (map utf8_bytes (scalar_values (map unat s)))))"

fun join_with :: "jsstring \<Rightarrow> jsstring list \<Rightarrow> jsstring" where
  "join_with sep [] = []"
| "join_with sep [x] = x"
| "join_with sep (x # y # xs) = x @ sep @ join_with sep (y # xs)"

definition URLSearchParams_serialize :: "(jsstring \<times> jsstring) list \<Rightarrow> jsstring" where
  "URLSearchParams_serialize params =
     join_with (js ''&'') (map (\<lambda>(k, v). urlencode k @ js ''='' @ urlencode v) params)"

text \<open>
  The tests replace \<^verbatim>\<open>httpx.fetch\<close> by a mock with one fixed outcome
  (\<^verbatim>\<open>mockResolvedValueOnce\<close>, \<^verbatim>\<open>mockRejectedValueOnce\<close>); numbers and parameters
  are printed as above. The tests pass no number that \<open>Number_print\<close> leaves out; for
  such a number this platform prints nothing.
\<close>

definition jest_platform :: "(jsval + response) \<Rightarrow> platform" where
  "jest_platform outcome =
     \<lparr>Number_toString = (\<lambda>n. case Number_print n of Some s \<Rightarrow> s | None \<Rightarrow> []),
      URLSearchParams_toString = URLSearchParams_serialize,
      httpx_fetch = (\<lambda>req. outcome)\<rparr>"

definition test_client :: client where
  "test_client =
     \<lparr>API_BASE_URL = js ''https://api.twitter.com/2'',
      authorizationHeader = js ''Bearer test-token''\<rparr>"

definition silent :: world where
  "silent = \<lparr>console_error = [], dispatched = []\<rparr>"

text \<open>\<^verbatim>\<open>mockRawResponse\<close> of the test of response processing, and the value it expects.\<close>

definition mockRawResponse :: jsval where
  "mockRawResponse =
     JObj [(js ''data'', JArr
       [JObj [(js ''id'', JStr (js ''12345'')),
              (js ''text'', JStr (js ''This is a test tweet'')),
              (js ''created_at'', JStr (js ''2023-08-01T12:00:00Z'')),
              (js ''author_id'', JStr (js ''67890'')),
              (js ''public_metrics'', JObj
                [(js ''like_count'', JNum (Finite 10)),
                 (js ''retweet_count'', JNum (Finite 5)),
                 (js ''reply_count'', JNum (Finite 2)),
                 (js ''quote_count'', JNum (Finite 1))]),
              (js ''referenced_tweets'', JArr
                [JObj [(js ''type'', JStr (js ''quoted'')), (js ''id'', JStr (js ''54321''))]])],
        JObj [(js ''id'', JStr (js ''12346'')),
              (js ''text'', JStr (js ''Another tweet'')),
              (js ''created_at'', JStr (js ''2023-08-01T12:05:00Z'')),
              (js ''author_id'', JStr (js ''67891'')),
              (js ''public_metrics'', JObj
                [(js ''like_count'', JNum (Finite 15)),
                 (js ''retweet_count'', JNum (Finite 8)),
                 (js ''reply_count'', JNum (Finite 3)),
                 (js ''quote_count'', JNum (Finite 2))])]])]"

definition expectedPosts :: jsval where
  "expectedPosts =
     JArr
       [JObj [(js ''id'', JStr (js ''12345'')),
              (js ''text'', JStr (js ''This is a test tweet'')),
              (js ''createdAt'', JStr (js ''2023-08-01T12:00:00Z'')),
              (js ''authorId'', JStr (js ''67890'')),
              (js ''metrics'', JObj
                [(js ''like_count'', JNum (Finite 10)),
                 (js ''retweet_count'', JNum (Finite 5)),
                 (js ''reply_count'', JNum (Finite 2)),
                 (js ''quote_count'', JNum (Finite 1))]),
              (js ''referencedTweets'', JArr
                [JObj [(js ''type'', JStr (js ''quoted'')), (js ''id'', JStr (js ''54321''))]])],
        JObj [(js ''id'', JStr (js ''12346'')),
              (js ''text'', JStr (js ''Another tweet'')),
              (js ''createdAt'', JStr (js ''2023-08-01T12:05:00Z'')),
              (js ''authorId'', JStr (js ''67891'')),
              (js ''metrics'', JObj
                [(js ''like_count'', JNum (Finite 15)),
                 (js ''retweet_count'', JNum (Finite 8)),
                 (js ''reply_count'', JNum (Finite 3)),
                 (js ''quote_count'', JNum (Finite 2))]),
              (js ''referencedTweets'', JArr [])]]"

section \<open>Facts about the embedding\<close>

declare decimal.simps [simp del]

lemma unat_of_char: "unat (of_char c :: 16 word) = of_char c"
proof -
  have "unat (of_nat (of_char c) :: 16 word) = of_char c mod 2 ^ 16"
    by (simp only: unat_of_nat len_of_numeral_defs) simp
  moreover have "(256 :: nat) < 2 ^ 16" by simp
  then have "(of_char c :: nat) < 2 ^ 16"
    by (rule less_trans [OF nat_of_char_less_256])
  ultimately show ?thesis
    by (simp only: of_nat_of_char mod_less)
qed

lemma of_char_word16_eq_iff: "(of_char a :: 16 word) = of_char b \<longleftrightarrow> a = b"
proof
  assume "(of_char a :: 16 word) = of_char b"
  then have "unat (of_char a :: 16 word) = unat (of_char b :: 16 word)" by simp
  then show "a = b" by (simp only: unat_of_char of_char_eq_iff)
qed simp

text \<open>Distinct literals are distinct strings.\<close>

lemma js_eq_iff: "js a = js b \<longleftrightarrow> a = b"
proof (induction a arbitrary: b)
  case Nil
  then show ?case by (auto simp: js_def)
next
  case (Cons x xs)
  then show ?case by (cases b) (simp_all add: js_def of_char_word16_eq_iff)
qed

text \<open>\<open>String_includes\<close> computes the library's notion of a contiguous sublist.\<close>

lemma String_includes_sublist: "String_includes s t \<longleftrightarrow> sublist t s"
  by (induction s) (auto simp: sublist_Cons_right)

lemma dropWhile_all: "(\<forall>x\<in>set (dropWhile P s). P x) \<longleftrightarrow> (\<forall>x\<in>set s. P x)"
  by (induction s) auto

text \<open>A string trims to the empty string exactly when it is white space only.\<close>

lemma String_trim_empty_iff: "String_trim s = [] \<longleftrightarrow> list_all is_WhiteSpace s"
  by (simp add: String_trim_def dropWhile_all list_all_iff)

lemma Number_lt_zero: "Number_lt (Finite 0) l \<Longrightarrow> \<not> Number_le l (Finite 0)"
  by (cases l) simp_all

text \<open>The digits that \<open>decimal\<close> produces.\<close>

lemma unat_digit: "k < 10 \<Longrightarrow> unat (of_nat (48 + k) :: 16 word) = 48 + k"
proof -
  assume "k < 10"
  then have "48 + k < (2 :: nat) ^ 16"
    by simp
  moreover have "unat (of_nat (48 + k) :: 16 word) = (48 + k) mod 2 ^ 16"
    by (simp only: unat_of_nat len_of_numeral_defs) simp
  ultimately show ?thesis
    by (simp only: mod_less)
qed

lemma is_decimal_digit_unat: "is_decimal_digit d \<longleftrightarrow> 48 \<le> unat d \<and> unat d \<le> 57"
  by (simp add: is_decimal_digit_def word_le_nat_alt)

lemma is_decimal_digit_of_nat: "k < 10 \<Longrightarrow> is_decimal_digit (of_nat (48 + k))"
  by (simp only: is_decimal_digit_unat unat_digit) simp

lemma digit_of_value: "is_decimal_digit d \<Longrightarrow> of_nat (48 + (unat d - 48)) = d"
proof -
  assume "is_decimal_digit d"
  then have "48 + (unat d - 48) = unat d"
    by (simp only: is_decimal_digit_unat) arith
  then show ?thesis
    by simp
qed

lemma digit_value_less: "is_decimal_digit d \<Longrightarrow> unat d - 48 < 10"
  by (simp only: is_decimal_digit_unat) arith

lemma digit_value_zero: "is_decimal_digit d \<Longrightarrow> d \<noteq> 0x30 \<Longrightarrow> unat d - 48 \<noteq> 0"
proof -
  assume d: "is_decimal_digit d" and n: "d \<noteq> 0x30"
  from n have "unat d \<noteq> unat (0x30 :: 16 word)"
    by (simp only: word_unat_eq_iff [symmetric] not_False_eq_True)
  then have "unat d \<noteq> 48"
    by simp
  with d show ?thesis
    by (simp only: is_decimal_digit_unat) arith
qed

lemma digits_value_snoc: "digits_value (ds @ [d]) = 10 * digits_value ds + (unat d - 48)"
  by (simp add: digits_value_def)

lemma decimal_not_Nil: "decimal n \<noteq> []"
  by (subst decimal.simps) simp

lemma decimal_digits: "list_all is_decimal_digit (decimal n)"
proof (induction n rule: decimal.induct)
  case (1 n)
  then show ?case
    by (subst decimal.simps) (simp add: is_decimal_digit_of_nat del: of_nat_add)
qed

lemma decimal_value: "digits_value (decimal n) = n"
proof (induction n rule: decimal.induct)
  case (1 n)
  show ?case
  proof (cases "n < 10")
    case True
    then show ?thesis
      by (subst decimal.simps) (simp add: digits_value_def unat_digit del: of_nat_add)
  next
    case False
    with 1 have "digits_value (decimal (n div 10)) = n div 10"
      by simp
    with False show ?thesis
      by (subst decimal.simps) (simp add: digits_value_snoc unat_digit del: of_nat_add)
  qed
qed

lemma decimal_hd: "1 \<le> n \<Longrightarrow> hd (decimal n) \<noteq> 0x30"
proof (induction n rule: decimal.induct)
  case (1 n)
  show ?case
  proof (cases "n < 10")
    case True
    with 1(2) have "unat (of_nat (48 + n) :: 16 word) \<noteq> unat (0x30 :: 16 word)"
      by (simp add: unat_digit del: of_nat_add)
    then have "(of_nat (48 + n) :: 16 word) \<noteq> 0x30"
      by auto
    with True show ?thesis
      by (subst decimal.simps) (simp del: of_nat_add)
  next
    case False
    then have "1 \<le> n div 10"
      by simp
    with 1(1) False have "hd (decimal (n div 10)) \<noteq> 0x30"
      by simp
    with False show ?thesis
      by (subst decimal.simps) (simp add: decimal_not_Nil)
  qed
qed

lemma decimal_length_one: "n < 10 \<Longrightarrow> length (decimal n) = 1"
  by (subst decimal.simps) simp

text \<open>\<open>decimal n\<close> is the decimal numeral of \<open>n\<close>, and the only one.\<close>

lemma decimal_numeral_decimal: "decimal_numeral (decimal n) n"
proof -
  have "length (decimal n) = 1 \<or> hd (decimal n) \<noteq> 0x30"
  proof (cases "n < 10")
    case True
    then show ?thesis by (simp add: decimal_length_one)
  next
    case False
    then show ?thesis by (simp add: decimal_hd)
  qed
  then show ?thesis
    by (simp add: decimal_numeral_def decimal_not_Nil decimal_digits decimal_value)
qed

lemma digits_value_positive:
  "ds \<noteq> [] \<Longrightarrow> list_all is_decimal_digit ds \<Longrightarrow> hd ds \<noteq> 0x30 \<Longrightarrow> 1 \<le> digits_value ds"
proof (induction ds rule: rev_induct)
  case Nil
  then show ?case by simp
next
  case (snoc d ds)
  show ?case
  proof (cases "ds = []")
    case True
    with snoc.prems have "is_decimal_digit d" "d \<noteq> 0x30"
      by simp_all
    then have "unat d - 48 \<noteq> 0"
      by (rule digit_value_zero)
    with True show ?thesis
      by (simp add: digits_value_def)
  next
    case False
    with snoc have "1 \<le> digits_value ds"
      by simp
    then show ?thesis
      by (simp add: digits_value_snoc)
  qed
qed

lemma decimal_numeral_unique: "decimal_numeral ds n \<Longrightarrow> ds = decimal n"
proof (induction ds arbitrary: n rule: rev_induct)
  case Nil
  then show ?case by (simp add: decimal_numeral_def)
next
  case (snoc d ds)
  from snoc.prems have d: "is_decimal_digit d" and all: "list_all is_decimal_digit ds"
    and n: "n = 10 * digits_value ds + (unat d - 48)"
    by (simp_all add: decimal_numeral_def digits_value_snoc)
  show ?case
  proof (cases "ds = []")
    case True
    with n have "n = unat d - 48"
      by (simp add: digits_value_def)
    with d have "n < 10" "of_nat (48 + n) = d"
      by (simp_all add: digit_value_less digit_of_value del: of_nat_add)
    with True show ?thesis
      by (subst decimal.simps) (simp del: of_nat_add)
  next
    case False
    with snoc.prems have h: "hd ds \<noteq> 0x30"
      by (simp add: decimal_numeral_def)
    with False all have pos: "1 \<le> digits_value ds"
      by (rule digits_value_positive)
    from False all h have "decimal_numeral ds (digits_value ds)"
      by (simp add: decimal_numeral_def)
    then have ds: "ds = decimal (digits_value ds)"
      by (rule snoc.IH)
    from d have lt: "unat d - 48 < 10"
      by (rule digit_value_less)
    with n pos have "\<not> n < 10" "n div 10 = digits_value ds" "n mod 10 = unat d - 48"
      by simp_all
    with ds d show ?thesis
      by (subst decimal.simps) (simp add: digit_of_value del: of_nat_add)
  qed
qed

text \<open>The platform of the tests at work.\<close>

lemma Number_print_examples:
  "Number_print (Finite 10) = Some (js ''10'')
   \<and> Number_print (Finite (1 / 2)) = Some (js ''0.5'')
   \<and> Number_print (Finite (- 3 / 2)) = Some (js ''-1.5'')
   \<and> Number_print (Finite (1 / 1000000)) = Some (js ''0.000001'')
   \<and> Number_print (Finite (1 / 10000000)) = None
   \<and> Number_print (Finite (1 / 3)) = None
   \<and> Number_print NaN = Some (js ''NaN'')"
proof -
  have s: "scale10 22 10 0 = Some (10, 0)" "scale10 22 (1 / 2) 0 = Some (5, 1)"
    "scale10 22 (3 / 2) 0 = Some (15, 1)" "scale10 22 (1 / 1000000) 0 = Some (1, 6)"
    "scale10 22 (1 / 10000000) 0 = Some (1, 7)" "scale10 22 (1 / 3) 0 = None"
    by code_simp+
  have d: "decimal 10 = js ''10''" "decimal 5 = js ''5''" "decimal 15 = js ''15''"
    "decimal (Suc 0) = js ''1''"
    by code_simp+
  have z: "replicate 5 (0x30 :: 16 word) = [0x30, 0x30, 0x30, 0x30, 0x30]"
    by code_simp
  show ?thesis
    by (simp add: Number_print_def print_positive_def s d z js_def)
qed

lemma URLSearchParams_serialize_examples:
  "URLSearchParams_serialize [(js ''query'', js ''#a b''), (js ''max_results'', js ''10'')]
     = js ''query=%23a+b&max_results=10''
   \<and> urlencode [0xE9, 0x20AC, 0xD83D, 0xDE00, 0xD800, 0x7E]
     = js ''%C3%A9%E2%82%AC%F0%9F%98%80%EF%BF%BD%7E''"
  by (simp add: URLSearchParams_serialize_def urlencode_def percent_encode_byte_def
      utf8_bytes_def hex_digit_def js_def)

lemma Array_map_total:
  "\<forall>x\<in>set xs. \<exists>y. f x = Inr y \<Longrightarrow>
   \<exists>ys. Array_map f xs = Inr ys \<and> length ys = length xs
        \<and> (\<forall>i<length xs. f (xs ! i) = Inr (ys ! i))"
proof (induction xs)
  case Nil
  then show ?case by simp
next
  case (Cons x xs)
  then obtain y where y: "f x = Inr y" by auto
  from Cons obtain ys where ys: "Array_map f xs = Inr ys" "length ys = length xs"
    "\<forall>i<length xs. f (xs ! i) = Inr (ys ! i)" by auto
  have "\<forall>i<length (x # xs). f ((x # xs) ! i) = Inr ((y # ys) ! i)"
    using y ys(3) by (auto simp: nth_Cons split: nat.splits)
  then show ?case using y ys by (simp add: bind_exn_def)
qed

lemma Array_map_throws:
  "\<exists>x\<in>set xs. f x = Inl TypeError \<Longrightarrow> Array_map f xs = Inl TypeError"
proof (induction xs)
  case Nil
  then show ?case by simp
next
  case (Cons x xs)
  show ?case
  proof (cases "f x")
    case (Inl e)
    then show ?thesis by (cases e) (simp add: bind_exn_def)
  next
    case (Inr y)
    with Cons have "Array_map f xs = Inl TypeError" by auto
    with Inr show ?thesis by (simp add: bind_exn_def)
  qed
qed

lemma simplify_tweet_throws:
  "t = JUndefined \<or> t = JNull \<Longrightarrow> simplify_tweet t = Inl TypeError"
  by (auto simp: simplify_tweet_def bind_exn_def)

lemma simplify_tweet_returns:
  "t \<noteq> JUndefined \<Longrightarrow> t \<noteq> JNull \<Longrightarrow> \<exists>p. simplify_tweet t = Inr p"
  by (cases t) (simp_all add: simplify_tweet_def bind_exn_def)

lemma simplify_tweet_record:
  "simplify_tweet (JObj kvs) = Inr (JObj
     [(js ''id'', Object_get kvs (js ''id'')),
      (js ''text'', Object_get kvs (js ''text'')),
      (js ''createdAt'', Object_get kvs (js ''created_at'')),
      (js ''authorId'', Object_get kvs (js ''author_id'')),
      (js ''metrics'', Object_get kvs (js ''public_metrics'')),
      (js ''referencedTweets'', or_else (Object_get kvs (js ''referenced_tweets'')) (JArr []))])"
  by (simp add: simplify_tweet_def bind_exn_def)

lemma handleError_dispatched: "dispatched (handleError e w) = dispatched w"
  by (cases e) (simp_all add: handleError_def console_error_call_def Let_def)

text \<open>The three ways through the validation of \<^verbatim>\<open>fetchTweets\<close>.\<close>

lemma fetchTweets_try_invalid_query:
  "list_all is_WhiteSpace query \<Longrightarrow>
   fetchTweets_try P c query limit w = (Inl (JError (js ''Query parameter is required'')), w)"
  by (simp add: fetchTweets_try_def String_trim_empty_iff)

lemma fetchTweets_try_invalid_limit:
  "\<not> list_all is_WhiteSpace query \<Longrightarrow> Number_le limit (Finite 0) \<Longrightarrow>
   fetchTweets_try P c query limit w =
     (Inl (JError (js ''Limit must be a positive integer'')), w)"
  by (auto simp: fetchTweets_try_def String_trim_empty_iff)

lemma fetchTweets_try_valid:
  "\<not> list_all is_WhiteSpace query \<Longrightarrow> \<not> Number_le limit (Finite 0) \<Longrightarrow>
   fetchTweets_try P c query limit w =
     (case httpx_fetch P (search_request P c query limit) of
        Inl thrown \<Rightarrow> Inl thrown
      | Inr response \<Rightarrow>
          if \<not> ok response
          then Inl (JError (js ''Twitter API error: '' @ decimal (unat (status response))
                             @ js '' '' @ statusText response))
          else json response,
      w\<lparr>dispatched := dispatched w @ [search_request P c query limit]\<rparr>)"
  by (auto simp: fetchTweets_try_def String_trim_empty_iff Let_def split: sum.splits)

section \<open>The claims\<close>

text \<open>
  Claim C1, as amended. \<^verbatim>\<open>processResponse\<close> is not total. It returns the empty
  sequence whenever the response is falsy (absent in particular) or its \<^verbatim>\<open>data\<close> is
  falsy (absent in particular); when \<^verbatim>\<open>data\<close> is an array none of whose entries is
  null or undefined (the empty array in particular) it returns a sequence of the same
  length; when \<^verbatim>\<open>data\<close> is an array with a null or undefined entry, or a truthy
  value that is not an array, it throws a TypeError.
\<close>

theorem processResponse_outcomes:
  "(\<not> truthy r \<longrightarrow> processResponse r = Inr (JArr []))
   \<and> (truthy r \<and> get_prop r (js ''data'') = Inr d \<and> \<not> truthy d
        \<longrightarrow> processResponse r = Inr (JArr []))
   \<and> (truthy r \<and> get_prop r (js ''data'') = Inr (JArr xs)
        \<and> (\<forall>x\<in>set xs. x \<noteq> JNull \<and> x \<noteq> JUndefined)
        \<longrightarrow> (\<exists>ys. processResponse r = Inr (JArr ys) \<and> length ys = length xs))
   \<and> (truthy r \<and> get_prop r (js ''data'') = Inr (JArr xs)
        \<and> (\<exists>x\<in>set xs. x = JNull \<or> x = JUndefined)
        \<longrightarrow> processResponse r = Inl TypeError)
   \<and> (truthy r \<and> get_prop r (js ''data'') = Inr d \<and> truthy d \<and> (\<forall>ys. d \<noteq> JArr ys)
        \<longrightarrow> processResponse r = Inl TypeError)"
proof (intro conjI impI)
  assume "\<not> truthy r"
  then show "processResponse r = Inr (JArr [])"
    by (simp add: processResponse_def)
next
  assume "truthy r \<and> get_prop r (js ''data'') = Inr d \<and> \<not> truthy d"
  then show "processResponse r = Inr (JArr [])"
    by (simp add: processResponse_def bind_exn_def)
next
  assume a: "truthy r \<and> get_prop r (js ''data'') = Inr (JArr xs)
    \<and> (\<forall>x\<in>set xs. x \<noteq> JNull \<and> x \<noteq> JUndefined)"
  then have "\<forall>x\<in>set xs. \<exists>y. simplify_tweet x = Inr y"
    using simplify_tweet_returns by blast
  from Array_map_total [OF this] obtain ys where
    "Array_map simplify_tweet xs = Inr ys" "length ys = length xs" by blast
  with a show "\<exists>ys. processResponse r = Inr (JArr ys) \<and> length ys = length xs"
    by (simp add: processResponse_def bind_exn_def)
next
  assume a: "truthy r \<and> get_prop r (js ''data'') = Inr (JArr xs)
    \<and> (\<exists>x\<in>set xs. x = JNull \<or> x = JUndefined)"
  then have "\<exists>x\<in>set xs. simplify_tweet x = Inl TypeError"
    using simplify_tweet_throws by blast
  then have "Array_map simplify_tweet xs = Inl TypeError"
    by (rule Array_map_throws)
  with a show "processResponse r = Inl TypeError"
    by (simp add: processResponse_def bind_exn_def)
next
  assume "truthy r \<and> get_prop r (js ''data'') = Inr d \<and> truthy d \<and> (\<forall>ys. d \<noteq> JArr ys)"
  then show "processResponse r = Inl TypeError"
    by (cases d) (simp_all add: processResponse_def bind_exn_def)
qed

theorem processResponse_outcomes_witness:
  "processResponse JUndefined = Inr (JArr [])
   \<and> processResponse (JObj []) = Inr (JArr [])
   \<and> (\<exists>ys. processResponse (JObj [(js ''data'', JArr [])]) = Inr (JArr ys)
           \<and> length ys = length ([] :: jsval list))
   \<and> (\<exists>ys. processResponse (JObj [(js ''data'', JArr [JObj [], JStr (js ''x'')])]) = Inr (JArr ys)
           \<and> length ys = length [JObj [], JStr (js ''x'')])
   \<and> processResponse (JObj [(js ''data'', JArr [JObj [], JNull])]) = Inl TypeError
   \<and> processResponse (JObj [(js ''data'', JObj [])]) = Inl TypeError"
  using processResponse_outcomes [of JUndefined]
    processResponse_outcomes [of "JObj []" JUndefined]
    processResponse_outcomes [of "JObj [(js ''data'', JArr [])]" "JArr []" "[]"]
    processResponse_outcomes [of "JObj [(js ''data'', JArr [JObj [], JStr (js ''x'')])]"
      "JArr [JObj [], JStr (js ''x'')]" "[JObj [], JStr (js ''x'')]"]
    processResponse_outcomes [of "JObj [(js ''data'', JArr [JObj [], JNull])]"
      "JArr [JObj [], JNull]" "[JObj [], JNull]"]
    processResponse_outcomes [of "JObj [(js ''data'', JObj [])]" "JObj []"]
  by (simp add: Object_get_def)

text \<open>
  Claim C1 as stated fails: a response whose \<^verbatim>\<open>data\<close> is the number 5 passes the
  guard, and \<^verbatim>\<open>(5).map\<close> is not a function.
\<close>

theorem processResponse_not_total:
  "processResponse (JObj [(js ''data'', JNum (Finite 5))]) = Inl TypeError"
  by (simp add: processResponse_def bind_exn_def Object_get_def)

text \<open>
  Claim C2. When validation passes, the transport resolves to a response whose
  \<^verbatim>\<open>ok\<close> flag is set, and \<^verbatim>\<open>json()\<close> resolves to a body, \<^verbatim>\<open>fetchTweets\<close>
  returns that very body: nothing is normalised, nothing is logged, and the one request
  is all that was dispatched.
\<close>

theorem fetchTweets_returns_raw_body:
  assumes "\<not> list_all is_WhiteSpace query" and "\<not> Number_le limit (Finite 0)"
    and "httpx_fetch P (search_request P c query limit) = Inr r"
    and "ok r" and "json r = Inr body"
  shows "fetchTweets P c query limit w =
           (Inr body, w\<lparr>dispatched := dispatched w @ [search_request P c query limit]\<rparr>)"
  using assms by (simp add: fetchTweets_def fetchTweets_try_valid)

text \<open>
  On the mock of the test of response processing the call returns
  \<^verbatim>\<open>mockRawResponse\<close> itself, which is not the normalised value;
  \<^verbatim>\<open>processResponse\<close>, called separately, produces that.
\<close>

theorem fetchTweets_returns_raw_body_witness:
  "\<not> list_all is_WhiteSpace (js ''#test'')
   \<and> \<not> Number_le (Finite 10) (Finite 0)
   \<and> fetchTweets
        (jest_platform
           (Inr \<lparr>ok = True, status = 200, statusText = js ''OK'', json = Inr mockRawResponse\<rparr>))
        test_client (js ''#test'') (Finite 10) silent
      = (Inr mockRawResponse,
         silent\<lparr>dispatched := dispatched silent @
           [search_request
              (jest_platform
                 (Inr \<lparr>ok = True, status = 200, statusText = js ''OK'', json = Inr mockRawResponse\<rparr>))
              test_client (js ''#test'') (Finite 10)]\<rparr>)
   \<and> mockRawResponse \<noteq> expectedPosts
   \<and> processResponse mockRawResponse = Inr expectedPosts"
proof -
  let ?r = "\<lparr>ok = True, status = 200, statusText = js ''OK'', json = Inr mockRawResponse\<rparr>"
  let ?P = "jest_platform (Inr ?r)"
  have q: "\<not> list_all is_WhiteSpace (js ''#test'')"
    by (simp add: js_def is_WhiteSpace_def)
  have l: "\<not> Number_le (Finite 10) (Finite 0)"
    by simp
  have t: "httpx_fetch ?P (search_request ?P test_client (js ''#test'') (Finite 10)) = Inr ?r"
    by (simp add: jest_platform_def)
  have raw: "mockRawResponse \<noteq> expectedPosts"
    by (simp add: mockRawResponse_def expectedPosts_def)
  have norm: "processResponse mockRawResponse = Inr expectedPosts"
    by (simp add: processResponse_def mockRawResponse_def expectedPosts_def bind_exn_def
        simplify_tweet_def Object_get_def or_else_def js_eq_iff)
  from fetchTweets_returns_raw_body [OF q l t, of mockRawResponse silent]
  have "fetchTweets ?P test_client (js ''#test'') (Finite 10) silent =
          (Inr mockRawResponse,
           silent\<lparr>dispatched := dispatched silent @
             [search_request ?P test_client (js ''#test'') (Finite 10)]\<rparr>)"
    by simp
  with q l raw norm show ?thesis
    by (intro conjI)
qed

text \<open>
  Claim C3. When validation passes and the transport resolves to a response whose
  \<^verbatim>\<open>ok\<close> flag is not set (a status outside 200 to 299), \<^verbatim>\<open>fetchTweets\<close> throws
  an \<^verbatim>\<open>Error\<close> whose message is \<^verbatim>\<open>Twitter API error: \<close>, the decimal numeral of
  the numeric status, a space, and the status text; it never returns a value there.
\<close>

theorem fetchTweets_not_ok_throws:
  assumes "\<not> list_all is_WhiteSpace query" and "\<not> Number_le limit (Finite 0)"
    and "httpx_fetch P (search_request P c query limit) = Inr r"
    and "\<not> ok r"
  shows "\<exists>digits. decimal_numeral digits (unat (status r))
           \<and> fst (fetchTweets P c query limit w) =
               Inl (JError (js ''Twitter API error: '' @ digits @ js '' '' @ statusText r))"
proof -
  have "fst (fetchTweets P c query limit w) =
          Inl (JError (js ''Twitter API error: '' @ decimal (unat (status r)) @ js '' ''
                       @ statusText r))"
    using assms by (simp add: fetchTweets_def fetchTweets_try_valid)
  then show ?thesis
    using decimal_numeral_decimal [of "unat (status r)"] by blast
qed

text \<open>
  The three tests of an HTTP error: statuses 401, 429 and 500. The digits are fixed by
  the theorem, since a number has one decimal numeral.
\<close>

theorem fetchTweets_not_ok_throws_witness:
  "\<not> list_all is_WhiteSpace (js ''test'')
   \<and> \<not> Number_le (Finite 10) (Finite 0)
   \<and> fst (fetchTweets
        (jest_platform
           (Inr \<lparr>ok = False, status = 401, statusText = js ''Unauthorized'', json = Inr JNull\<rparr>))
        test_client (js ''test'') (Finite 10) silent)
      = Inl (JError (js ''Twitter API error: 401 Unauthorized''))
   \<and> fst (fetchTweets
        (jest_platform
           (Inr \<lparr>ok = False, status = 429, statusText = js ''Too Many Requests'',
                  json = Inr JNull\<rparr>))
        test_client (js ''test'') (Finite 10) silent)
      = Inl (JError (js ''Twitter API error: 429 Too Many Requests''))
   \<and> fst (fetchTweets
        (jest_platform
           (Inr \<lparr>ok = False, status = 500, statusText = js ''Internal Server Error'',
                  json = Inr JNull\<rparr>))
        test_client (js ''test'') (Finite 10) silent)
      = Inl (JError (js ''Twitter API error: 500 Internal Server Error''))"
proof -
  have q: "\<not> list_all is_WhiteSpace (js ''test'')"
    by (simp add: js_def is_WhiteSpace_def)
  have l: "\<not> Number_le (Finite 10) (Finite 0)"
    by simp
  have run: "fst (fetchTweets (jest_platform (Inr r)) test_client (js ''test'') (Finite 10) silent)
      = Inl (JError (js ''Twitter API error: '' @ decimal (unat (status r)) @ js '' ''
                     @ statusText r))"
    if n: "\<not> ok r" for r
  proof -
    have t: "httpx_fetch (jest_platform (Inr r))
        (search_request (jest_platform (Inr r)) test_client (js ''test'') (Finite 10)) = Inr r"
      by (simp add: jest_platform_def)
    from fetchTweets_not_ok_throws [OF q l t n, of silent] obtain digits where
      d: "decimal_numeral digits (unat (status r))" and
      m: "fst (fetchTweets (jest_platform (Inr r)) test_client (js ''test'') (Finite 10) silent)
            = Inl (JError (js ''Twitter API error: '' @ digits @ js '' '' @ statusText r))"
      by blast
    from d have "digits = decimal (unat (status r))"
      by (rule decimal_numeral_unique)
    with m show ?thesis
      by simp
  qed
  have d: "decimal 401 = js ''401''" "decimal 429 = js ''429''" "decimal 500 = js ''500''"
    by code_simp+
  have e: "js ''Twitter API error: '' @ js ''401'' @ js '' '' @ js ''Unauthorized''
             = js ''Twitter API error: 401 Unauthorized''"
    "js ''Twitter API error: '' @ js ''429'' @ js '' '' @ js ''Too Many Requests''
             = js ''Twitter API error: 429 Too Many Requests''"
    "js ''Twitter API error: '' @ js ''500'' @ js '' '' @ js ''Internal Server Error''
             = js ''Twitter API error: 500 Internal Server Error''"
    by (simp_all add: js_def)
  show ?thesis
    using run [of "\<lparr>ok = False, status = 401, statusText = js ''Unauthorized'',
                    json = Inr JNull\<rparr>"]
      run [of "\<lparr>ok = False, status = 429, statusText = js ''Too Many Requests'',
               json = Inr JNull\<rparr>"]
      run [of "\<lparr>ok = False, status = 500, statusText = js ''Internal Server Error'',
               json = Inr JNull\<rparr>"]
      q l
    by (simp add: d e)
qed

text \<open>
  Claim C4. When \<^verbatim>\<open>data\<close> is an array of records (objects), \<^verbatim>\<open>processResponse\<close>
  returns an array of the same length whose entry at each position is built from the
  record at that position: \<^verbatim>\<open>id\<close>, \<^verbatim>\<open>text\<close>, \<^verbatim>\<open>created_at\<close> as
  \<^verbatim>\<open>createdAt\<close>, \<^verbatim>\<open>author_id\<close> as \<^verbatim>\<open>authorId\<close>, \<^verbatim>\<open>public_metrics\<close>
  unchanged as \<^verbatim>\<open>metrics\<close>, and \<^verbatim>\<open>referenced_tweets\<close> as
  \<^verbatim>\<open>referencedTweets\<close> (the field the specification calls referencedPosts), which is
  the record's array when it has one, the empty array when the record omits the field,
  and never null or undefined.
\<close>

theorem processResponse_maps_records_in_order:
  assumes "Object_get resp (js ''data'') = JArr tweets"
    and "\<forall>t\<in>set tweets. \<exists>kvs. t = JObj kvs"
  shows "\<exists>posts. processResponse (JObj resp) = Inr (JArr posts)
           \<and> length posts = length tweets
           \<and> (\<forall>i<length tweets. \<forall>kvs. tweets ! i = JObj kvs \<longrightarrow>
                (\<exists>refs. posts ! i = JObj
                     [(js ''id'', Object_get kvs (js ''id'')),
                      (js ''text'', Object_get kvs (js ''text'')),
                      (js ''createdAt'', Object_get kvs (js ''created_at'')),
                      (js ''authorId'', Object_get kvs (js ''author_id'')),
                      (js ''metrics'', Object_get kvs (js ''public_metrics'')),
                      (js ''referencedTweets'', refs)]
                   \<and> (map_of kvs (js ''referenced_tweets'') = None \<longrightarrow> refs = JArr [])
                   \<and> (\<forall>rs. map_of kvs (js ''referenced_tweets'') = Some (JArr rs)
                         \<longrightarrow> refs = JArr rs)
                   \<and> refs \<noteq> JNull \<and> refs \<noteq> JUndefined))"
proof -
  have "\<forall>x\<in>set tweets. \<exists>y. simplify_tweet x = Inr y"
  proof
    fix x
    assume "x \<in> set tweets"
    with assms(2) obtain kvs where "x = JObj kvs"
      by auto
    then show "\<exists>y. simplify_tweet x = Inr y"
      by (simp add: simplify_tweet_record)
  qed
  from Array_map_total [OF this] obtain posts where
    posts: "Array_map simplify_tweet tweets = Inr posts" "length posts = length tweets"
      "\<forall>i<length tweets. simplify_tweet (tweets ! i) = Inr (posts ! i)"
    by blast
  have run: "processResponse (JObj resp) = Inr (JArr posts)"
    using assms(1) posts(1) by (simp add: processResponse_def bind_exn_def)
  have each: "\<exists>refs. posts ! i = JObj
       [(js ''id'', Object_get kvs (js ''id'')),
        (js ''text'', Object_get kvs (js ''text'')),
        (js ''createdAt'', Object_get kvs (js ''created_at'')),
        (js ''authorId'', Object_get kvs (js ''author_id'')),
        (js ''metrics'', Object_get kvs (js ''public_metrics'')),
        (js ''referencedTweets'', refs)]
     \<and> (map_of kvs (js ''referenced_tweets'') = None \<longrightarrow> refs = JArr [])
     \<and> (\<forall>rs. map_of kvs (js ''referenced_tweets'') = Some (JArr rs) \<longrightarrow> refs = JArr rs)
     \<and> refs \<noteq> JNull \<and> refs \<noteq> JUndefined"
    if "i < length tweets" and "tweets ! i = JObj kvs" for i kvs
  proof -
    let ?refs = "or_else (Object_get kvs (js ''referenced_tweets'')) (JArr [])"
    from that posts(3) have "simplify_tweet (JObj kvs) = Inr (posts ! i)"
      by auto
    then have p1: "posts ! i = JObj
       [(js ''id'', Object_get kvs (js ''id'')),
        (js ''text'', Object_get kvs (js ''text'')),
        (js ''createdAt'', Object_get kvs (js ''created_at'')),
        (js ''authorId'', Object_get kvs (js ''author_id'')),
        (js ''metrics'', Object_get kvs (js ''public_metrics'')),
        (js ''referencedTweets'', ?refs)]"
      by (simp add: simplify_tweet_record)
    have p2: "map_of kvs (js ''referenced_tweets'') = None \<longrightarrow> ?refs = JArr []"
      by (simp add: or_else_def Object_get_def)
    have p3: "\<forall>rs. map_of kvs (js ''referenced_tweets'') = Some (JArr rs)
        \<longrightarrow> ?refs = JArr rs"
      by (simp add: or_else_def Object_get_def)
    have p4: "?refs \<noteq> JNull" and p5: "?refs \<noteq> JUndefined"
      by (auto simp: or_else_def)
    show ?thesis
      by (rule exI [of _ ?refs]) (intro conjI p1 p2 p3 p4 p5)
  qed
  show ?thesis
    by (rule exI [of _ posts]) (intro conjI allI impI run posts(2) each)
qed

text \<open>
  The scenario of the specification and of the test: two records, the first with
  \<^verbatim>\<open>referenced_tweets\<close>, the second without.
\<close>

theorem processResponse_maps_records_in_order_witness:
  "(\<exists>posts. processResponse mockRawResponse = Inr (JArr posts) \<and> length posts = 2)
   \<and> processResponse mockRawResponse = Inr expectedPosts"
proof -
  obtain resp tweets where m: "mockRawResponse = JObj resp"
      and d: "Object_get resp (js ''data'') = JArr tweets"
      and n: "length tweets = 2"
      and r: "\<forall>t\<in>set tweets. \<exists>kvs. t = JObj kvs"
    by (simp add: mockRawResponse_def Object_get_def)
  have e: "processResponse mockRawResponse = Inr expectedPosts"
    by (simp add: processResponse_def mockRawResponse_def expectedPosts_def bind_exn_def
        simplify_tweet_def Object_get_def or_else_def js_eq_iff)
  from processResponse_maps_records_in_order [OF d r] obtain posts where
    "processResponse (JObj resp) = Inr (JArr posts)" "length posts = length tweets"
    by blast
  with m n e show ?thesis
    by auto
qed

text \<open>
  Claim C5. When the query is empty or white space only, or the limit is at most
  zero, \<^verbatim>\<open>fetchTweets\<close> throws one of its two validation errors (the query is
  checked first), after \<^verbatim>\<open>handleError\<close> has logged it, and no request is handed to
  the transport.
\<close>

theorem fetchTweets_validation_before_dispatch:
  assumes "list_all is_WhiteSpace query \<or> Number_le limit (Finite 0)"
  shows "\<exists>m. m = (if list_all is_WhiteSpace query then js ''Query parameter is required''
                   else js ''Limit must be a positive integer'')
           \<and> fetchTweets P c query limit w = (Inl (JError m), handleError (JError m) w)
           \<and> dispatched (snd (fetchTweets P c query limit w)) = dispatched w"
proof (cases "list_all is_WhiteSpace query")
  case True
  then show ?thesis
    by (simp add: fetchTweets_def fetchTweets_try_invalid_query handleError_dispatched)
next
  case False
  with assms have "Number_le limit (Finite 0)"
    by simp
  with False show ?thesis
    by (simp add: fetchTweets_def fetchTweets_try_invalid_limit handleError_dispatched)
qed

text \<open>
  \<^verbatim>\<open>fetchTweets("", 10)\<close>, \<^verbatim>\<open>fetchTweets(" \t", 10)\<close> and
  \<^verbatim>\<open>fetchTweets("test", 0)\<close> against a transport that would answer.
\<close>

theorem fetchTweets_validation_before_dispatch_witness:
  "fst (fetchTweets (jest_platform (Inr \<lparr>ok = True, status = 200,
          statusText = js ''OK'', json = Inr JNull\<rparr>)) test_client [] (Finite 10) silent)
     = Inl (JError (js ''Query parameter is required''))
   \<and> dispatched (snd (fetchTweets (jest_platform (Inr \<lparr>ok = True, status = 200,
          statusText = js ''OK'', json = Inr JNull\<rparr>)) test_client [] (Finite 10) silent)) = []
   \<and> fst (fetchTweets (jest_platform (Inr \<lparr>ok = True, status = 200,
          statusText = js ''OK'', json = Inr JNull\<rparr>)) test_client [0x20, 0x09] (Finite 10) silent)
     = Inl (JError (js ''Query parameter is required''))
   \<and> dispatched (snd (fetchTweets (jest_platform (Inr \<lparr>ok = True, status = 200,
          statusText = js ''OK'', json = Inr JNull\<rparr>)) test_client [0x20, 0x09] (Finite 10) silent)) = []
   \<and> fst (fetchTweets (jest_platform (Inr \<lparr>ok = True, status = 200,
          statusText = js ''OK'', json = Inr JNull\<rparr>)) test_client (js ''test'') (Finite 0) silent)
     = Inl (JError (js ''Limit must be a positive integer''))
   \<and> dispatched (snd (fetchTweets (jest_platform (Inr \<lparr>ok = True, status = 200,
          statusText = js ''OK'', json = Inr JNull\<rparr>)) test_client (js ''test'') (Finite 0) silent)) = []"
proof -
  let ?r = "\<lparr>ok = True, status = 200, statusText = js ''OK'', json = Inr JNull\<rparr>"
  have q1: "list_all is_WhiteSpace [] \<or> Number_le (Finite 10) (Finite 0)"
    by simp
  have q2: "list_all is_WhiteSpace [0x20, 0x09] \<or> Number_le (Finite 10) (Finite 0)"
    by (simp add: is_WhiteSpace_def)
  have q3: "list_all is_WhiteSpace (js ''test'') \<or> Number_le (Finite 0) (Finite 0)"
    by simp
  have n3: "\<not> list_all is_WhiteSpace (js ''test'')"
    by (simp add: js_def is_WhiteSpace_def)
  show ?thesis
    using fetchTweets_validation_before_dispatch
        [OF q1, of "jest_platform (Inr ?r)" test_client silent]
      fetchTweets_validation_before_dispatch
        [OF q2, of "jest_platform (Inr ?r)" test_client silent]
      fetchTweets_validation_before_dispatch
        [OF q3, of "jest_platform (Inr ?r)" test_client silent]
      n3
    by (simp add: is_WhiteSpace_def silent_def handleError_dispatched)
qed

text \<open>
  Claim C6. Whatever the \<^verbatim>\<open>try\<close> block throws, \<^verbatim>\<open>fetchTweets\<close> hands to
  \<^verbatim>\<open>handleError\<close> in the world as it was at the throw and then throws the same
  value; the caller sees the outcome the block had; and a rejection of the transport
  reaches the caller as the value the transport rejected with.
\<close>

theorem fetchTweets_rethrows_unchanged:
  "(fetchTweets_try P c query limit w = (Inl e, w1) \<longrightarrow>
      fetchTweets P c query limit w = (Inl e, handleError e w1))
   \<and> fst (fetchTweets P c query limit w) = fst (fetchTweets_try P c query limit w)
   \<and> (\<not> list_all is_WhiteSpace query \<and> \<not> Number_le limit (Finite 0)
        \<and> httpx_fetch P (search_request P c query limit) = Inl thrown \<longrightarrow>
      fetchTweets P c query limit w =
        (Inl thrown,
         handleError thrown
           (w\<lparr>dispatched := dispatched w @ [search_request P c query limit]\<rparr>)))"
  by (auto simp: fetchTweets_def fetchTweets_try_valid split: sum.splits prod.splits)

text \<open>The test of a network error: the transport rejects with \<^verbatim>\<open>new Error('Network error')\<close>.\<close>

theorem fetchTweets_rethrows_unchanged_witness:
  "fetchTweets (jest_platform (Inl (JError (js ''Network error''))))
       test_client (js ''test'') (Finite 10) silent
     = (Inl (JError (js ''Network error'')),
        handleError (JError (js ''Network error''))
          (silent\<lparr>dispatched := dispatched silent @
             [search_request (jest_platform (Inl (JError (js ''Network error''))))
                test_client (js ''test'') (Finite 10)]\<rparr>))
   \<and> console_error (snd (fetchTweets (jest_platform (Inl (JError (js ''Network error''))))
       test_client (js ''test'') (Finite 10) silent))
     = [[JStr (js ''Twitter API Error:''), JError (js ''Network error'')]]"
proof -
  let ?P = "jest_platform (Inl (JError (js ''Network error'')))"
  have q: "\<not> list_all is_WhiteSpace (js ''test'')"
    by (simp add: js_def is_WhiteSpace_def)
  have l: "\<not> Number_le (Finite 10) (Finite 0)"
    by simp
  have t: "httpx_fetch ?P (search_request ?P test_client (js ''test'') (Finite 10))
             = Inl (JError (js ''Network error''))"
    by (simp add: jest_platform_def)
  have h: "console_error (handleError (JError (js ''Network error'')) v)
             = console_error v @ [[JStr (js ''Twitter API Error:''), JError (js ''Network error'')]]"
    for v
    by (simp add: handleError_def console_error_call_def js_def)
  from fetchTweets_rethrows_unchanged
    [of ?P test_client "js ''test''" "Finite 10" silent _ _ "JError (js ''Network error'')"] q l t
  have "fetchTweets ?P test_client (js ''test'') (Finite 10) silent
     = (Inl (JError (js ''Network error'')),
        handleError (JError (js ''Network error''))
          (silent\<lparr>dispatched := dispatched silent @
             [search_request ?P test_client (js ''test'') (Finite 10)]\<rparr>))"
    by blast
  then show ?thesis
    by (simp add: h silent_def)
qed

text \<open>
  Claim C7. \<^verbatim>\<open>handleError\<close> always logs the raw error first and at most one more
  line. For an \<^verbatim>\<open>Error\<close> whose message contains \<^verbatim>\<open>401\<close> or
  \<^verbatim>\<open>Unauthorized\<close> the one more line is the authentication diagnostic; otherwise,
  when the message contains \<^verbatim>\<open>429\<close>, it is the rate-limit diagnostic; otherwise
  there is none. It is a total function into the world, so it neither throws nor
  returns a value, and it dispatches nothing.
\<close>

theorem handleError_logs_and_classifies:
  "(\<exists>more. console_error (handleError e w)
             = console_error w @ [JStr (js ''Twitter API Error:''), e] # more
           \<and> length more \<le> 1)
   \<and> console_error (handleError (JError m) w)
       = console_error w @ [JStr (js ''Twitter API Error:''), JError m] #
           (if sublist (js ''401'') m \<or> sublist (js ''Unauthorized'') m
            then [[JStr (js ''Authentication failed. Please check your Twitter API credentials.'')]]
            else if sublist (js ''429'') m
            then [[JStr (js ''Rate limit exceeded. Please try again later.'')]]
            else [])
   \<and> dispatched (handleError e w) = dispatched w"
proof (intro conjI)
  show "\<exists>more. console_error (handleError e w)
             = console_error w @ [JStr (js ''Twitter API Error:''), e] # more
           \<and> length more \<le> 1"
    by (cases e) (simp_all add: handleError_def console_error_call_def Let_def)
  show "console_error (handleError (JError m) w)
       = console_error w @ [JStr (js ''Twitter API Error:''), JError m] #
           (if sublist (js ''401'') m \<or> sublist (js ''Unauthorized'') m
            then [[JStr (js ''Authentication failed. Please check your Twitter API credentials.'')]]
            else if sublist (js ''429'') m
            then [[JStr (js ''Rate limit exceeded. Please try again later.'')]]
            else [])"
    by (simp add: handleError_def console_error_call_def Let_def String_includes_sublist)
  show "dispatched (handleError e w) = dispatched w"
    by (rule handleError_dispatched)
qed

text \<open>The errors of the four tests of error handling: statuses 401, 429 and 500, and a network error.\<close>

theorem handleError_logs_and_classifies_witness:
  "console_error (handleError (JError (js ''Twitter API error: 401 Unauthorized'')) silent)
     = [[JStr (js ''Twitter API Error:''), JError (js ''Twitter API error: 401 Unauthorized'')],
        [JStr (js ''Authentication failed. Please check your Twitter API credentials.'')]]
   \<and> console_error (handleError (JError (js ''Twitter API error: 429 Too Many Requests'')) silent)
     = [[JStr (js ''Twitter API Error:''), JError (js ''Twitter API error: 429 Too Many Requests'')],
        [JStr (js ''Rate limit exceeded. Please try again later.'')]]
   \<and> console_error (handleError (JError (js ''Twitter API error: 500 Internal Server Error'')) silent)
     = [[JStr (js ''Twitter API Error:''),
         JError (js ''Twitter API error: 500 Internal Server Error'')]]
   \<and> console_error (handleError (JError (js ''Network error'')) silent)
     = [[JStr (js ''Twitter API Error:''), JError (js ''Network error'')]]"
proof -
  have s: "sublist (js ''401'') (js ''Twitter API error: 401 Unauthorized'')"
    "\<not> sublist (js ''401'') (js ''Twitter API error: 429 Too Many Requests'')"
    "\<not> sublist (js ''Unauthorized'') (js ''Twitter API error: 429 Too Many Requests'')"
    "sublist (js ''429'') (js ''Twitter API error: 429 Too Many Requests'')"
    "\<not> sublist (js ''401'') (js ''Twitter API error: 500 Internal Server Error'')"
    "\<not> sublist (js ''Unauthorized'') (js ''Twitter API error: 500 Internal Server Error'')"
    "\<not> sublist (js ''429'') (js ''Twitter API error: 500 Internal Server Error'')"
    "\<not> sublist (js ''401'') (js ''Network error'')"
    "\<not> sublist (js ''Unauthorized'') (js ''Network error'')"
    "\<not> sublist (js ''429'') (js ''Network error'')"
    by (simp_all add: String_includes_sublist [symmetric] js_def)
  show ?thesis
    using handleError_logs_and_classifies
        [of _ silent "js ''Twitter API error: 401 Unauthorized''"]
      handleError_logs_and_classifies
        [of _ silent "js ''Twitter API error: 429 Too Many Requests''"]
      handleError_logs_and_classifies
        [of _ silent "js ''Twitter API error: 500 Internal Server Error''"]
      handleError_logs_and_classifies
        [of _ silent "js ''Network error''"]
    by (simp add: s silent_def)
qed

text \<open>
  Claim C8. Constructing the client throws at once when the bearer token is undefined
  or empty; with a non-empty token it yields a client that holds the fixed base URL
  and \<^verbatim>\<open>Bearer \<close> followed by the token. No operation of the class takes the client
  other than as an argument or returns one, so what the constructor stored stays.
\<close>

theorem TwitterApiClient_requires_token:
  "(token = None \<or> token = Some [] \<longrightarrow>
      TwitterApiClient token = Inl (JError (js ''TWITTER_BEARER_TOKEN is not configured'')))
   \<and> (token = Some t \<and> t \<noteq> [] \<longrightarrow>
      TwitterApiClient token =
        Inr \<lparr>API_BASE_URL = js ''https://api.twitter.com/2'',
             authorizationHeader = js ''Bearer '' @ t\<rparr>)"
  by (auto simp: TwitterApiClient_def)

theorem TwitterApiClient_requires_token_witness:
  "TwitterApiClient None = Inl (JError (js ''TWITTER_BEARER_TOKEN is not configured''))
   \<and> TwitterApiClient (Some []) = Inl (JError (js ''TWITTER_BEARER_TOKEN is not configured''))
   \<and> TwitterApiClient (Some (js ''test-token'')) = Inr test_client"
proof -
  have n: "js ''test-token'' \<noteq> []"
    by (simp add: js_def)
  show ?thesis
    using TwitterApiClient_requires_token [of None]
      TwitterApiClient_requires_token [of "Some []"]
      TwitterApiClient_requires_token [of "Some (js ''test-token'')" "js ''test-token''"] n
    by (simp add: test_client_def js_def)
qed

text \<open>
  Claim C9. For a thrown value that is not an instance of \<^verbatim>\<open>Error\<close>,
  \<^verbatim>\<open>handleError\<close> logs the raw value and nothing else, whatever text it holds.
\<close>

theorem handleError_non_Error_logs_once:
  assumes "\<forall>m. e \<noteq> JError m"
  shows "handleError e w
           = w\<lparr>console_error := console_error w @ [[JStr (js ''Twitter API Error:''), e]]\<rparr>"
  using assms by (cases e) (simp_all add: handleError_def console_error_call_def Let_def)

theorem handleError_non_Error_logs_once_witness:
  "handleError (JStr (js ''401 Unauthorized'')) silent
     = silent\<lparr>console_error := console_error silent @
         [[JStr (js ''Twitter API Error:''), JStr (js ''401 Unauthorized'')]]\<rparr>
   \<and> handleError (JObj [(js ''message'', JStr (js ''429''))]) silent
     = silent\<lparr>console_error := console_error silent @
         [[JStr (js ''Twitter API Error:''), JObj [(js ''message'', JStr (js ''429''))]]]\<rparr>"
proof -
  have a: "\<forall>m. JStr (js ''401 Unauthorized'') \<noteq> JError m"
    by simp
  have b: "\<forall>m. JObj [(js ''message'', JStr (js ''429''))] \<noteq> JError m"
    by simp
  show ?thesis
    by (intro conjI handleError_non_Error_logs_once [OF a] handleError_non_Error_logs_once [OF b])
qed

text \<open>
  Claim C10. Validation tests the limit only by \<^verbatim>\<open>limit <= 0\<close>. For a query that
  passes validation (not empty once trimmed) and a limit greater than zero, an integer
  or not, \<^verbatim>\<open>fetchTweets\<close> dispatches exactly one request, whose URL carries
  \<^verbatim>\<open>max_results\<close> set to the limit as \<^verbatim>\<open>toString\<close> prints it, and the outcome is
  the transport's.
\<close>

theorem fetchTweets_dispatches_for_positive_limit:
  assumes "\<not> list_all is_WhiteSpace query" and "Number_lt (Finite 0) limit"
  shows "dispatched (snd (fetchTweets P c query limit w))
           = dispatched w @ [search_request P c query limit]
         \<and> url (search_request P c query limit)
           = API_BASE_URL c @ js ''/tweets/search/recent?'' @
               URLSearchParams_toString P
                 [(js ''query'', String_trim query),
                  (js ''max_results'', Number_toString P limit),
                  (js ''tweet.fields'', js ''created_at,author_id,public_metrics,referenced_tweets'')]
         \<and> fst (fetchTweets P c query limit w)
           = (case httpx_fetch P (search_request P c query limit) of
                Inl thrown \<Rightarrow> Inl thrown
              | Inr response \<Rightarrow>
                  if \<not> ok response
                  then Inl (JError (js ''Twitter API error: '' @ decimal (unat (status response))
                                     @ js '' '' @ statusText response))
                  else json response)"
proof -
  from assms(2) have l: "\<not> Number_le limit (Finite 0)"
    by (rule Number_lt_zero)
  have "dispatched (snd (fetchTweets P c query limit w))
          = dispatched w @ [search_request P c query limit]"
    by (simp add: fetchTweets_def fetchTweets_try_valid [OF assms(1) l] handleError_dispatched
        split: sum.splits)
  moreover have "url (search_request P c query limit)
           = API_BASE_URL c @ js ''/tweets/search/recent?'' @
               URLSearchParams_toString P
                 [(js ''query'', String_trim query),
                  (js ''max_results'', Number_toString P limit),
                  (js ''tweet.fields'', js ''created_at,author_id,public_metrics,referenced_tweets'')]"
    by (simp add: search_request_def search_params_def)
  moreover have "fst (fetchTweets P c query limit w)
           = (case httpx_fetch P (search_request P c query limit) of
                Inl thrown \<Rightarrow> Inl thrown
              | Inr response \<Rightarrow>
                  if \<not> ok response
                  then Inl (JError (js ''Twitter API error: '' @ decimal (unat (status response))
                                     @ js '' '' @ statusText response))
                  else json response)"
    by (simp add: fetchTweets_def fetchTweets_try_valid [OF assms(1) l] split: sum.splits)
  ultimately show ?thesis
    by (intro conjI)
qed

text \<open>
  \<^verbatim>\<open>fetchTweets("test", 0.5)\<close>: the limit prints as \<^verbatim>\<open>0.5\<close> and the request goes
  to the URL below.
\<close>

theorem fetchTweets_dispatches_for_positive_limit_witness:
  "\<not> list_all is_WhiteSpace (js ''test'')
   \<and> Number_lt (Finite 0) (Finite (1 / 2))
   \<and> map url (dispatched (snd (fetchTweets
        (jest_platform
           (Inr \<lparr>ok = True, status = 200, statusText = js ''OK'', json = Inr (JObj [])\<rparr>))
        test_client (js ''test'') (Finite (1 / 2)) silent)))
     = [js (''https://api.twitter.com/2/tweets/search/recent?query=test&max_results=0.5'' @
            ''&tweet.fields=created_at%2Cauthor_id%2Cpublic_metrics%2Creferenced_tweets'')]
   \<and> fst (fetchTweets
        (jest_platform
           (Inr \<lparr>ok = True, status = 200, statusText = js ''OK'', json = Inr (JObj [])\<rparr>))
        test_client (js ''test'') (Finite (1 / 2)) silent) = Inr (JObj [])"
proof -
  let ?P = "jest_platform
    (Inr \<lparr>ok = True, status = 200, statusText = js ''OK'', json = Inr (JObj [])\<rparr>)"
  have q: "\<not> list_all is_WhiteSpace (js ''test'')"
    by (simp add: js_def is_WhiteSpace_def)
  have l: "Number_lt (Finite 0) (Finite (1 / 2))"
    by simp
  have s: "scale10 22 (1 / 2) 0 = Some (5, 1)"
    by code_simp
  have d: "decimal 5 = js ''5''"
    by code_simp
  have n: "Number_toString ?P (Finite (1 / 2)) = js ''0.5''"
    by (simp add: jest_platform_def Number_print_def print_positive_def s d js_def)
  have t: "String_trim (js ''test'') = js ''test''"
    by (simp add: String_trim_def js_def is_WhiteSpace_def)
  have u: "URLSearchParams_toString ?P
      [(js ''query'', js ''test''), (js ''max_results'', js ''0.5''),
       (js ''tweet.fields'', js ''created_at,author_id,public_metrics,referenced_tweets'')]
     = js ''query=test&max_results=0.5&tweet.fields=created_at%2Cauthor_id%2Cpublic_metrics%2Creferenced_tweets''"
    by (simp add: jest_platform_def URLSearchParams_serialize_def urlencode_def
        percent_encode_byte_def utf8_bytes_def hex_digit_def js_def)
  have o: "httpx_fetch ?P req
      = Inr \<lparr>ok = True, status = 200, statusText = js ''OK'', json = Inr (JObj [])\<rparr>" for req
    by (simp add: jest_platform_def)
  from fetchTweets_dispatches_for_positive_limit [OF q l, of ?P test_client silent]
  have "map url (dispatched (snd (fetchTweets ?P test_client (js ''test'') (Finite (1 / 2)) silent)))
     = [js (''https://api.twitter.com/2/tweets/search/recent?query=test&max_results=0.5'' @
            ''&tweet.fields=created_at%2Cauthor_id%2Cpublic_metrics%2Creferenced_tweets'')]"
    and "fst (fetchTweets ?P test_client (js ''test'') (Finite (1 / 2)) silent) = Inr (JObj [])"
    by (simp_all add: n t u o silent_def test_client_def) (simp add: js_def)
  with q l show ?thesis
    by (intro conjI)
qed

section \<open>Further facts\<close>

text \<open>
  The comparison \<^verbatim>\<open>limit <= 0\<close> is false for NaN, so a NaN limit passes validation
  and a request is dispatched.
\<close>

theorem fetchTweets_accepts_NaN_limit:
  assumes "\<not> list_all is_WhiteSpace query"
  shows "dispatched (snd (fetchTweets P c query NaN w))
           = dispatched w @ [search_request P c query NaN]"
proof -
  have l: "\<not> Number_le NaN (Finite 0)"
    by simp
  show ?thesis
    by (simp add: fetchTweets_def fetchTweets_try_valid [OF assms l] handleError_dispatched
        split: sum.splits)
qed

theorem fetchTweets_accepts_NaN_limit_witness:
  "\<not> list_all is_WhiteSpace (js ''test'')
   \<and> length (dispatched (snd (fetchTweets
        (jest_platform (Inl (JError (js ''Network error''))))
        test_client (js ''test'') NaN silent))) = 1"
proof -
  have q: "\<not> list_all is_WhiteSpace (js ''test'')"
    by (simp add: js_def is_WhiteSpace_def)
  from fetchTweets_accepts_NaN_limit [OF q, of
      "jest_platform (Inl (JError (js ''Network error'')))" test_client silent]
  have "length (dispatched (snd (fetchTweets
        (jest_platform (Inl (JError (js ''Network error''))))
        test_client (js ''test'') NaN silent))) = 1"
    by (simp add: silent_def)
  with q show ?thesis
    by (intro conjI)
qed

text \<open>
  The three tests of response processing call \<^verbatim>\<open>fetchTweets\<close> and compare its result
  with a normalised value. On their mocks the call returns the raw body, which is a
  different value each time.
\<close>

theorem fetchTweets_on_processing_tests:
  "fst (fetchTweets
      (jest_platform
         (Inr \<lparr>ok = True, status = 200, statusText = js ''OK'', json = Inr mockRawResponse\<rparr>))
      test_client (js ''#test'') (Finite 10) silent) = Inr mockRawResponse
   \<and> mockRawResponse \<noteq> expectedPosts
   \<and> fst (fetchTweets
      (jest_platform
         (Inr \<lparr>ok = True, status = 200, statusText = js ''OK'',
                json = Inr (JObj [(js ''data'', JArr [])])\<rparr>))
      test_client (js ''#test'') (Finite 10) silent) = Inr (JObj [(js ''data'', JArr [])])
   \<and> JObj [(js ''data'', JArr [])] \<noteq> JArr []
   \<and> fst (fetchTweets
      (jest_platform
         (Inr \<lparr>ok = True, status = 200, statusText = js ''OK'', json = Inr (JObj [])\<rparr>))
      test_client (js ''#test'') (Finite 10) silent) = Inr (JObj [])
   \<and> JObj [] \<noteq> JArr []"
proof -
  have q: "\<not> list_all is_WhiteSpace (js ''#test'')"
    by (simp add: js_def is_WhiteSpace_def)
  have l: "\<not> Number_le (Finite 10) (Finite 0)"
    by simp
  have run: "fst (fetchTweets
      (jest_platform
         (Inr \<lparr>ok = True, status = 200, statusText = js ''OK'', json = Inr body\<rparr>))
      test_client (js ''#test'') (Finite 10) silent) = Inr body" for body
    by (simp add: fetchTweets_def fetchTweets_try_valid [OF q l] jest_platform_def)
  have "mockRawResponse \<noteq> expectedPosts"
    by (simp add: mockRawResponse_def expectedPosts_def)
  then show ?thesis
    by (simp add: run)
qed

end
